theory Spec2Isabelle
  imports Main "HOL-Library.Word" "HOL-Library.Multiset"
begin

unbundle bit_operations_syntax

section \<open>Compression kinds and failures\<close>

text \<open>
  The package \<^verbatim>\<open>compression\<close> declares \<^verbatim>\<open>type Compression int\<close> with the two named
  constants \<^verbatim>\<open>Uncompressed = iota\<close> (0) and \<^verbatim>\<open>Gzip\<close> (1). Every other integer is
  still a value of the type, so the kind is modelled as an integer and not as a
  two-element datatype.
\<close>

type_synonym byte = "8 word"

type_synonym Compression = int

definition Uncompressed :: Compression where
  "Uncompressed = 0"

definition Gzip :: Compression where
  "Gzip = 1"

text \<open>
  What a call can end with other than a result: the sentinel \<^verbatim>\<open>io.EOF\<close>, any other
  \<^verbatim>\<open>error\<close> value (carried with its message), or a run-time panic.
\<close>

datatype failure = EOF | Error string | Panic string

section \<open>Extension\<close>

text \<open>
  \<^verbatim>\<open>func (compression *Compression) Extension() string\<close> has a pointer receiver and
  reads \<^verbatim>\<open>*compression\<close>: the receiver is an optional kind, and reading through
  \<^verbatim>\<open>nil\<close> panics.
\<close>

fun Extension :: "Compression option \<Rightarrow> failure + string" where
  "Extension None = Inl (Panic ''invalid memory address or nil pointer dereference'')"
| "Extension (Some c) = Inr (if c = Gzip then ''gz'' else '''')"

section \<open>DetectCompression\<close>

text \<open>
  The map literal ranged over by \<^verbatim>\<open>DetectCompression\<close>. Go visits the entries of a
  map in an unspecified order, so the loop is written over an arbitrary listing of the
  entries and \<open>DetectCompression\<close> runs it on the listing in which the literal is written.
\<close>

definition signatures :: "(Compression \<times> byte list) list" where
  "signatures = [(Gzip, [0x1F, 0x8B, 0x08])]"

fun detect :: "(Compression \<times> byte list) list \<Rightarrow> byte list \<Rightarrow> Compression" where
  "detect [] source = Uncompressed"
| "detect ((compression, m) # rest) source =
     (if length source < length m then detect rest source
      else if m = take (length m) source then compression
      else detect rest source)"

definition DetectCompression :: "byte list \<Rightarrow> Compression" where
  "DetectCompression source = detect signatures source"

section \<open>Streams, the buffered reader and its pool\<close>

text \<open>
  An \<^verbatim>\<open>io.Reader\<close> as its caller observes it: the bytes it delivers in order, and the
  failure that ends them (\<open>EOF\<close> for a stream that simply ends).
\<close>

record stream =
  data :: "byte list"
  final :: failure

text \<open>
  A \<^verbatim>\<open>*bufio.Reader\<close> of the pool. Every one is made by
  \<^verbatim>\<open>bufio.NewReaderSize(nil, 32*1024)\<close>, so the capacity is a constant; the field is
  the reader it is attached to (\<^verbatim>\<open>nil\<close> when detached). \<^verbatim>\<open>Peek\<close> does not consume,
  so no read position is kept.
\<close>

record bufio_Reader =
  rd :: "stream option"

definition bufSize :: nat where
  "bufSize = 32 * 1024"

definition NewReaderSize :: "stream option \<Rightarrow> bufio_Reader" where
  "NewReaderSize r = \<lparr>rd = r\<rparr>"

definition Reset :: "bufio_Reader \<Rightarrow> stream option \<Rightarrow> bufio_Reader" where
  "Reset b r = b\<lparr>rd := r\<rparr>"

text \<open>
  \<^verbatim>\<open>Peek(n)\<close>: the next \<open>n\<close> bytes without advancing. With fewer than \<open>n\<close> bytes
  available it returns those it has together with the failure that stopped the fill;
  asking for more than the capacity gives \<^verbatim>\<open>ErrBufferFull\<close>; filling from a
  \<^verbatim>\<open>nil\<close> reader panics.
\<close>

definition Peek :: "bufio_Reader \<Rightarrow> nat \<Rightarrow> byte list \<times> failure option" where
  "Peek b n =
     (case rd b of
        None \<Rightarrow> ([], Some (Panic ''invalid memory address or nil pointer dereference''))
      | Some s \<Rightarrow>
          if bufSize < n then (take bufSize (data s), Some (Error ''bufio: buffer full''))
          else if length (data s) < n then (data s, Some (final s))
          else (take n (data s), None))"

text \<open>
  The buffered readers are shared by reference between the returned stream, its release
  action and the pool, so they live in a store addressed by numbers. \<open>fresh\<close> is the
  next unused address and \<open>bufioReader32KPool\<close> lists the addresses currently pooled.
  \<^verbatim>\<open>sync.Pool\<close> may hand out any pooled item; the model hands out the most recently
  put one, and calls \<^verbatim>\<open>New\<close> when the pool is empty.
\<close>

record store =
  heap :: "nat \<Rightarrow> bufio_Reader"
  fresh :: nat
  bufioReader32KPool :: "nat list"

definition pool_New :: "store \<Rightarrow> nat \<times> store" where
  "pool_New st =
     (fresh st, st\<lparr>heap := (heap st)(fresh st := NewReaderSize None), fresh := Suc (fresh st)\<rparr>)"

definition pool_Get :: "store \<Rightarrow> nat \<times> store" where
  "pool_Get st =
     (case bufioReader32KPool st of
        [] \<Rightarrow> pool_New st
      | b # rest \<Rightarrow> (b, st\<lparr>bufioReader32KPool := rest\<rparr>))"

definition pool_Put :: "nat \<Rightarrow> store \<Rightarrow> store" where
  "pool_Put b st = st\<lparr>bufioReader32KPool := b # bufioReader32KPool st\<rparr>"

definition buf_Reset :: "nat \<Rightarrow> stream option \<Rightarrow> store \<Rightarrow> store" where
  "buf_Reset b r st = st\<lparr>heap := (heap st)(b := Reset (heap st b) r)\<rparr>"

text \<open>
  The pool's invariant: the pooled addresses are allocated and none is pooled twice.
\<close>

definition pool_wf :: "store \<Rightarrow> bool" where
  "pool_wf st \<longleftrightarrow>
     distinct (bufioReader32KPool st) \<and> (\<forall>a \<in> set (bufioReader32KPool st). a < fresh st)"

definition empty_store :: store where
  "empty_store = \<lparr>heap = (\<lambda>_. NewReaderSize None), fresh = 0, bufioReader32KPool = []\<rparr>"

section \<open>The gzip library\<close>

text \<open>
  \<^verbatim>\<open>compress/gzip\<close> is not part of the package. A decoder is described by what its
  caller observes: the bytes its \<^verbatim>\<open>Read\<close> delivers, the failure that ends them, the
  failure on which the deflate stream below it stopped (\<open>EOF\<close> when that stream ended
  well, also when the trailer then fails the checksum), and whether the reads have
  reached their end. The constructor \<^verbatim>\<open>gzip.NewReader\<close> is a parameter of
  \<open>DecompressStream\<close>: a function from the buffered reader to a failure or a decoder.
\<close>

record gzip_Reader =
  decoded :: "byte list"
  stop :: failure
  inflate_stop :: failure
  ended :: bool

type_synonym gzip_NewReader = "bufio_Reader \<Rightarrow> failure + gzip_Reader"

text \<open>
  The decoder's own \<^verbatim>\<open>Close\<close> returns the error the decompressor holds: nothing
  while no read has failed, and afterwards the failure that stopped the deflate stream
  unless that is \<^verbatim>\<open>io.EOF\<close>. Reading a decoder until it fails leaves it ended.
\<close>

definition gzip_Close :: "gzip_Reader \<Rightarrow> failure option" where
  "gzip_Close z =
     (if ended z then (if inflate_stop z = EOF then None else Some (inflate_stop z))
      else None)"

definition gzip_read_to_end :: "gzip_Reader \<Rightarrow> gzip_Reader" where
  "gzip_read_to_end z = z\<lparr>ended := True\<rparr>"

text \<open>
  One instance of the parameter, for the closed examples. It reads the fixed ten-byte
  member header as the library does: a short header is \<^verbatim>\<open>io.ErrUnexpectedEOF\<close>, an
  empty stream \<^verbatim>\<open>io.EOF\<close>, a wrong magic \<^verbatim>\<open>gzip.ErrHeader\<close>. It does not parse the
  optional header fields and refuses a member whose flag byte announces one (bits 1 to
  4). Of the body it looks at the first block header only: with no byte there the read
  ends in \<^verbatim>\<open>io.ErrUnexpectedEOF\<close> (or the stream's own failure), and a first byte of
  the reserved block type 3 is \<^verbatim>\<open>flate.CorruptInputError(1)\<close>, as in the library. It
  does not inflate: a block of type 0, 1 or 2 is reported as not inflated. The new
  decoder has not ended.
\<close>

definition first_block :: "byte list \<Rightarrow> failure \<Rightarrow> gzip_Reader" where
  "first_block body fin =
     (let e = (case body of
                 [] \<Rightarrow> (if fin = EOF then Error ''unexpected EOF'' else fin)
               | b # _ \<Rightarrow>
                   if drop_bit 1 b AND 3 = 3 then Error ''flate: corrupt input before offset 1''
                   else Error ''flate: block not inflated'')
      in \<lparr>decoded = [], stop = e, inflate_stop = e, ended = False\<rparr>)"

definition header_only_NewReader :: gzip_NewReader where
  "header_only_NewReader b =
     (case rd b of
        None \<Rightarrow> Inl (Panic ''invalid memory address or nil pointer dereference'')
      | Some s \<Rightarrow>
          if length (data s) < 10 then
            Inl (if data s = [] then final s
                 else if final s = EOF then Error ''unexpected EOF'' else final s)
          else if take 3 (data s) \<noteq> [0x1F, 0x8B, 0x08] then Inl (Error ''gzip: invalid header'')
          else if (data s ! 3) AND 0x1E \<noteq> 0 then Inl (Error ''gzip: invalid header'')
          else Inr (first_block (drop 10 (data s)) (final s)))"

section \<open>CompressStream\<close>

text \<open>
  The destination \<^verbatim>\<open>io.Writer\<close> is a byte sink: the bytes written to it so far.
  \<^verbatim>\<open>gzip.NewWriter(dest)\<close> belongs to the library and is kept as a constructor.
\<close>

record writeCloserWrapper =
  Writer :: "byte list"
  wcloser :: "(store \<Rightarrow> failure option \<times> store) option"

datatype WriteCloser = Wrapper writeCloserWrapper | GzipWriter "byte list"

text \<open>
  \<^verbatim>\<open>Write\<close> of the wrapper is the embedded writer's: the sink takes all of \<open>p\<close>.
  \<^verbatim>\<open>Close\<close> calls the closer when there is one, drops what it returns, and returns
  \<^verbatim>\<open>nil\<close>.
\<close>

definition Write ::
  "writeCloserWrapper \<Rightarrow> byte list \<Rightarrow> (nat \<times> failure option) \<times> writeCloserWrapper" where
  "Write w p = ((length p, None), w\<lparr>Writer := Writer w @ p\<rparr>)"

definition Close_w :: "writeCloserWrapper \<Rightarrow> store \<Rightarrow> failure option \<times> store" where
  "Close_w w st = (case wcloser w of Some f \<Rightarrow> (None, snd (f st)) | None \<Rightarrow> (None, st))"

definition CompressStream :: "byte list \<Rightarrow> Compression \<Rightarrow> failure + WriteCloser" where
  "CompressStream dest compression =
     (if compression = Uncompressed then Inr (Wrapper \<lparr>Writer = dest, wcloser = None\<rparr>)
      else if compression = Gzip then Inr (GzipWriter dest)
      else (case Extension (Some compression) of
              Inl p \<Rightarrow> Inl p
            | Inr ext \<Rightarrow> Inl (Error (''unsupported compression format '' @ ext))))"

text \<open>The reader over the bytes a sink has received: they are followed by end of stream.\<close>

definition bytes_Reader :: "byte list \<Rightarrow> stream" where
  "bytes_Reader bs = \<lparr>data = bs, final = EOF\<rparr>"

section \<open>The wrapped read stream\<close>

text \<open>
  The embedded \<^verbatim>\<open>io.Reader\<close> of a \<^verbatim>\<open>readCloserWrapper\<close> is either the pooled
  buffered reader itself or a gzip decoder. \<open>closer\<close> is the \<^verbatim>\<open>func() error\<close> field,
  a function on the store, or \<^verbatim>\<open>nil\<close>.
\<close>

datatype Reader = BufReader nat | GzReader gzip_Reader

record readCloserWrapper =
  Reader :: Reader
  compression :: Compression
  closer :: "(store \<Rightarrow> failure option \<times> store) option"

definition Close :: "readCloserWrapper \<Rightarrow> store \<Rightarrow> failure option \<times> store" where
  "Close r st = (case closer r of Some f \<Rightarrow> f st | None \<Rightarrow> (None, st))"

definition GetCompression :: "readCloserWrapper \<Rightarrow> Compression" where
  "GetCompression r = compression r"

text \<open>
  What a caller obtains by calling \<^verbatim>\<open>Read\<close> on the wrapper until it fails: the bytes
  and the failure that ended them.
\<close>

definition drain :: "readCloserWrapper \<Rightarrow> store \<Rightarrow> byte list \<times> failure" where
  "drain r st =
     (case Reader r of
        BufReader b \<Rightarrow>
          (case rd (heap st b) of
             None \<Rightarrow> ([], Panic ''invalid memory address or nil pointer dereference'')
           | Some s \<Rightarrow> (data s, final s))
      | GzReader z \<Rightarrow> (decoded z, stop z))"

text \<open>
  The wrapper after its caller has read it until it failed. The embedded reader is
  shared by reference, so a gzip decoder is then ended; the buffered reader keeps no
  read position.
\<close>

definition drained :: "readCloserWrapper \<Rightarrow> readCloserWrapper" where
  "drained r =
     (case Reader r of
        BufReader b \<Rightarrow> r
      | GzReader z \<Rightarrow> r\<lparr>Reader := GzReader (gzip_read_to_end z)\<rparr>)"

section \<open>DecompressStream\<close>

definition DecompressStream ::
  "gzip_NewReader \<Rightarrow> stream \<Rightarrow> store \<Rightarrow> (failure + readCloserWrapper) \<times> store" where
  "DecompressStream NewReader archive st0 =
     (let (buf, st1) = pool_Get st0;
          st = buf_Reset buf (Some archive) st1;
          (bs, err) = Peek (heap st buf) 10
      in case (if err = Some EOF then None else err) of
           Some e \<Rightarrow> (Inl e, st)
         | None \<Rightarrow>
            (let closer = (\<lambda>s. (None, pool_Put buf (buf_Reset buf None s)));
                 compression = DetectCompression bs
             in if compression = Uncompressed then
                  (Inr \<lparr>Reader = BufReader buf, compression = compression,
                        closer = Some closer\<rparr>, st)
                else if compression = Gzip then
                  (case NewReader (heap st buf) of
                     Inl err \<Rightarrow> (Inl err, st)
                   | Inr gzReader \<Rightarrow>
                       (Inr \<lparr>Reader = GzReader gzReader, compression = compression,
                             closer = Some closer\<rparr>, st))
                else
                  (case Extension (Some compression) of
                     Inl p \<Rightarrow> (Inl p, st)
                   | Inr ext \<Rightarrow>
                       (Inl (Error (''unsupported compression format '' @ ext)), st))))"

section \<open>Properties of detection and of the extension\<close>

lemma DetectCompression_unfold:
  "DetectCompression source =
     (if length source < 3 then Uncompressed
      else if take 3 source = [0x1F, 0x8B, 0x08] then Gzip else Uncompressed)"
  by (simp add: DetectCompression_def signatures_def numeral_3_eq_3)

lemma DetectCompression_cases:
  "DetectCompression source = Uncompressed \<or> DetectCompression source = Gzip"
  by (simp add: DetectCompression_unfold)

lemma Gzip_neq_Uncompressed: "Gzip \<noteq> Uncompressed"
  by (simp add: Gzip_def Uncompressed_def)

lemma listing_of_signatures:
  assumes "mset order = mset signatures"
  shows "order = signatures"
proof -
  from assms have "mset order = {#(Gzip, [0x1F, 0x8B, 0x08])#}"
    by (simp add: signatures_def)
  then have "order = [(Gzip, [0x1F, 0x8B, 0x08])]"
    by simp
  then show ?thesis
    by (simp add: signatures_def)
qed

text \<open>
  C4. A slice whose first three bytes are \<open>1F 8B 08\<close> is detected as Gzip, whatever
  follows them and however long the slice is.
\<close>

theorem detect_gzip_signature:
  "DetectCompression (0x1F # 0x8B # 0x08 # rest) = Gzip"
  by (simp add: DetectCompression_unfold)

text \<open>
  C5. A slice shorter than the only registered signature (three bytes) is detected as
  Uncompressed.
\<close>

theorem detect_short_input:
  "length source < 3 \<Longrightarrow> DetectCompression source = Uncompressed"
  by (simp add: DetectCompression_unfold)

theorem detect_short_input_witness:
  "length [0x1F, 0x8B :: byte] < 3 \<and> DetectCompression [0x1F, 0x8B] = Uncompressed"
  using detect_short_input [of "[0x1F, 0x8B]"] by simp

text \<open>
  C8. On every kind value Extension returns a string and never fails: \<open>gz\<close> for Gzip,
  the empty string for Uncompressed and for every other value.
\<close>

theorem Extension_total:
  "Extension (Some Gzip) = Inr ''gz'' \<and>
   Extension (Some Uncompressed) = Inr '''' \<and>
   (\<forall>c. c \<noteq> Gzip \<longrightarrow> Extension (Some c) = Inr '''') \<and>
   (\<forall>c. \<exists>s. Extension (Some c) = Inr s)"
  by (simp add: Gzip_neq_Uncompressed [symmetric])

theorem Extension_total_witness:
  "(7::Compression) \<noteq> Gzip \<and> Extension (Some 7) = Inr ''''"
  using Extension_total by (simp add: Gzip_def)

text \<open>
  C9. The result of detection does not depend on the order in which the registered
  signatures are visited: any two listings of the registry give the same kind.
\<close>

theorem detect_order_independent:
  "mset order1 = mset signatures \<Longrightarrow> mset order2 = mset signatures \<Longrightarrow>
     detect order1 source = detect order2 source \<and>
     detect order1 source = DetectCompression source"
  by (auto dest!: listing_of_signatures simp: DetectCompression_def)

theorem detect_order_independent_witness:
  "mset [(Gzip, [0x1F, 0x8B, 0x08 :: byte])] = mset signatures \<and>
   detect [(Gzip, [0x1F, 0x8B, 0x08])] [0x1F, 0x8B, 0x08, 0x00] =
     DetectCompression [0x1F, 0x8B, 0x08, 0x00]"
  using detect_order_independent
    [of "[(Gzip, [0x1F, 0x8B, 0x08])]" "[(Gzip, [0x1F, 0x8B, 0x08])]" "[0x1F, 0x8B, 0x08, 0x00]"]
  by (simp add: signatures_def)

section \<open>Properties of the stream adapters\<close>

subsection \<open>The checkout and the result of DecompressStream\<close>

lemma pool_Get_fresh:
  "pool_wf st \<Longrightarrow> fst (pool_Get st) \<notin> set (bufioReader32KPool (snd (pool_Get st)))"
  by (auto simp: pool_wf_def pool_Get_def pool_New_def split: list.splits)

lemma DecompressStream_store:
  "snd (DecompressStream N archive st0) =
     buf_Reset (fst (pool_Get st0)) (Some archive) (snd (pool_Get st0))"
  by (simp add: DecompressStream_def Let_def split: prod.splits option.splits sum.splits)

lemma checkout_attached:
  "rd (heap (buf_Reset b r st) b) = r"
  by (simp add: buf_Reset_def Reset_def)

lemma checkout_pool:
  "bufioReader32KPool (buf_Reset b r st) = bufioReader32KPool st"
  by (simp add: buf_Reset_def)

lemma checkout_buffer:
  "heap (buf_Reset b (Some archive) st) b = NewReaderSize (Some archive)"
  by (simp add: buf_Reset_def Reset_def NewReaderSize_def)

lemma Peek_short_or_full:
  "Peek (NewReaderSize (Some archive)) 10 =
     (take 10 (data archive), if length (data archive) < 10 then Some (final archive) else None)"
  by (simp add: Peek_def NewReaderSize_def bufSize_def)

lemma DecompressStream_result:
  "fst (DecompressStream N archive st0) =
     (if length (data archive) < 10 \<and> final archive \<noteq> EOF then Inl (final archive)
      else if DetectCompression (take 10 (data archive)) = Uncompressed then
        Inr \<lparr>Reader = BufReader (fst (pool_Get st0)), compression = Uncompressed,
             closer = Some (\<lambda>s. (None, pool_Put (fst (pool_Get st0)) (buf_Reset (fst (pool_Get st0)) None s)))\<rparr>
      else (case N (NewReaderSize (Some archive)) of
              Inl e \<Rightarrow> Inl e
            | Inr z \<Rightarrow> Inr \<lparr>Reader = GzReader z, compression = Gzip,
             closer = Some (\<lambda>s. (None, pool_Put (fst (pool_Get st0)) (buf_Reset (fst (pool_Get st0)) None s)))\<rparr>))"
  using DetectCompression_cases [of "take 10 (data archive)"]
  by (auto simp: DecompressStream_def Let_def checkout_buffer Peek_short_or_full Gzip_neq_Uncompressed
      split: prod.splits sum.splits)

lemma Uncompressed_neq_Gzip: "Uncompressed \<noteq> Gzip"
  by (simp add: Gzip_def Uncompressed_def)

lemma release_effect:
  "pool_Put buf (buf_Reset buf None s) = s' \<Longrightarrow>
     rd (heap s' buf) = None \<and> bufioReader32KPool s' = buf # bufioReader32KPool s \<and>
     fresh s' = fresh s"
  by (auto simp: pool_Put_def buf_Reset_def Reset_def)

lemma DecompressStream_plain:
  assumes "length (data archive) < 10 \<longrightarrow> final archive = EOF"
    and "DetectCompression (take 10 (data archive)) = Uncompressed"
  shows "\<exists>r. DecompressStream N archive st0 =
            (Inr r, buf_Reset (fst (pool_Get st0)) (Some archive) (snd (pool_Get st0))) \<and>
          Reader r = BufReader (fst (pool_Get st0)) \<and> compression r = Uncompressed"
proof -
  let ?res = "DecompressStream N archive st0"
  from assms obtain r where "fst ?res = Inr r" "Reader r = BufReader (fst (pool_Get st0))"
    "compression r = Uncompressed"
    by (auto simp: DecompressStream_result)
  then show ?thesis
    by (auto simp: prod_eq_iff DecompressStream_store)
qed

lemma drain_plain:
  "Reader r = BufReader b \<Longrightarrow>
     drain r (buf_Reset b (Some archive) st) = (data archive, final archive)"
  by (simp add: drain_def checkout_attached)

subsection \<open>The writer adapter\<close>

text \<open>
  C7. For every kind other than Uncompressed and Gzip, CompressStream returns no
  stream but the error whose message is \<open>unsupported compression format\<close> followed by
  that kind's extension, which is the empty string.
\<close>

theorem unsupported_kind:
  "c \<noteq> Uncompressed \<Longrightarrow> c \<noteq> Gzip \<Longrightarrow>
     \<exists>ext. Extension (Some c) = Inr ext \<and> ext = '''' \<and>
       CompressStream dest c = Inl (Error (''unsupported compression format '' @ ext))"
  by (simp add: CompressStream_def)

theorem unsupported_kind_witness:
  "(2::Compression) \<noteq> Uncompressed \<and> 2 \<noteq> Gzip \<and>
   CompressStream [0x41] 2 = Inl (Error ''unsupported compression format '')"
  using unsupported_kind [of 2 "[0x41]"] by (simp add: Uncompressed_def Gzip_def)

subsection \<open>The reader adapter\<close>

text \<open>
  C6. On a stream of no bytes that ends with end of stream, DecompressStream succeeds
  whatever the pool holds and whatever the gzip library is: the returned stream has kind
  Uncompressed and reading it gives no bytes and end of stream.
\<close>

theorem empty_stream_is_uncompressed:
  "\<exists>r st. DecompressStream NewReader \<lparr>data = [], final = EOF\<rparr> st0 = (Inr r, st) \<and>
     GetCompression r = Uncompressed \<and> drain r st = ([], EOF)"
proof -
  let ?archive = "\<lparr>data = [], final = EOF\<rparr>"
  have "length (data ?archive) < 10 \<longrightarrow> final ?archive = EOF"
    by simp
  moreover have "DetectCompression (take 10 (data ?archive)) = Uncompressed"
    by (simp add: DetectCompression_unfold)
  ultimately obtain r where
    "DecompressStream NewReader ?archive st0 =
       (Inr r, buf_Reset (fst (pool_Get st0)) (Some ?archive) (snd (pool_Get st0)))"
    "Reader r = BufReader (fst (pool_Get st0))" "compression r = Uncompressed"
    using DecompressStream_plain [of ?archive NewReader st0] by blast
  then show ?thesis
    using drain_plain [of r "fst (pool_Get st0)" ?archive "snd (pool_Get st0)"]
    by (simp add: GetCompression_def)
qed

text \<open>
  C10. Whenever DecompressStream succeeds, GetCompression of the returned stream is
  DetectCompression of the bytes the ten-byte peek returned; it is Uncompressed or Gzip;
  and the stream reads from a gzip decoder exactly when the kind is Gzip (and from the
  buffered reader itself exactly when it is Uncompressed).
\<close>

theorem exposed_kind_is_detected:
  "DecompressStream NewReader archive st0 = (Inr r, st) \<Longrightarrow>
     GetCompression r = DetectCompression (fst (Peek (NewReaderSize (Some archive)) 10)) \<and>
     (GetCompression r = Uncompressed \<or> GetCompression r = Gzip) \<and>
     ((\<exists>z. Reader r = GzReader z) \<longleftrightarrow> GetCompression r = Gzip) \<and>
     ((\<exists>b. Reader r = BufReader b) \<longleftrightarrow> GetCompression r = Uncompressed)"
proof -
  assume a: "DecompressStream NewReader archive st0 = (Inr r, st)"
  then have f: "fst (DecompressStream NewReader archive st0) = Inr r"
    by simp
  show ?thesis
    using f DetectCompression_cases [of "take 10 (data archive)"]
    by (auto simp: DecompressStream_result GetCompression_def Peek_short_or_full
        Gzip_neq_Uncompressed Uncompressed_neq_Gzip split: if_splits sum.splits)
qed

theorem exposed_kind_is_detected_witness:
  "map_sum id GetCompression
     (fst (DecompressStream header_only_NewReader
        (bytes_Reader [0x1F, 0x8B, 0x08, 0, 0, 0, 0, 0, 0, 0xFF, 0xFF]) empty_store)) = Inr Gzip \<and>
   Gzip = DetectCompression [0x1F, 0x8B, 0x08, 0, 0, 0, 0, 0, 0, 0xFF]"
proof -
  let ?archive = "bytes_Reader [0x1F, 0x8B, 0x08, 0, 0, 0, 0, 0, 0, 0xFF, 0xFF]"
  let ?res = "DecompressStream header_only_NewReader ?archive empty_store"
  obtain r where r: "fst ?res = Inr r"
    by (simp add: DecompressStream_result bytes_Reader_def DetectCompression_unfold
        Gzip_neq_Uncompressed header_only_NewReader_def first_block_def NewReaderSize_def)
  then have "?res = (Inr r, snd ?res)"
    by (simp add: prod_eq_iff)
  from exposed_kind_is_detected [OF this] r show ?thesis
    by (simp add: Peek_short_or_full bytes_Reader_def DetectCompression_unfold)
qed

text \<open>
  C1, amended. For every payload that does not begin with the bytes \<open>1F 8B 08\<close>:
  writing it through the stream CompressStream returns for Uncompressed on an empty
  destination, and giving the resulting bytes to DecompressStream, yields a stream of kind
  Uncompressed whose content is the payload. (A payload that begins with the gzip
  signature is detected as Gzip on the way back; see the counterexample.)
\<close>

theorem uncompressed_roundtrip:
  "take 3 P \<noteq> [0x1F, 0x8B, 0x08] \<Longrightarrow>
     \<exists>w r st. CompressStream [] Uncompressed = Inr (Wrapper w) \<and>
       DecompressStream NewReader (bytes_Reader (Writer (snd (Write w P)))) st0 = (Inr r, st) \<and>
       GetCompression r = Uncompressed \<and> drain r st = (P, EOF)"
proof -
  assume magic: "take 3 P \<noteq> [0x1F, 0x8B, 0x08]"
  let ?w = "\<lparr>Writer = [], wcloser = None\<rparr>"
  let ?archive = "bytes_Reader (Writer (snd (Write ?w P)))"
  have written: "?archive = \<lparr>data = P, final = EOF\<rparr>"
    by (simp add: Write_def bytes_Reader_def)
  have "take 3 (take 10 P) = take 3 P"
    by simp
  with magic have kind: "DetectCompression (take 10 (data ?archive)) = Uncompressed"
    by (simp add: written DetectCompression_unfold)
  have "length (data ?archive) < 10 \<longrightarrow> final ?archive = EOF"
    by (simp add: written)
  with kind obtain r where
    "DecompressStream NewReader ?archive st0 =
       (Inr r, buf_Reset (fst (pool_Get st0)) (Some ?archive) (snd (pool_Get st0)))"
    "Reader r = BufReader (fst (pool_Get st0))" "compression r = Uncompressed"
    using DecompressStream_plain [of ?archive NewReader st0] by blast
  moreover have "CompressStream [] Uncompressed = Inr (Wrapper ?w)"
    by (simp add: CompressStream_def)
  ultimately show ?thesis
    using drain_plain [of r "fst (pool_Get st0)" ?archive "snd (pool_Get st0)"]
    by (auto simp: GetCompression_def written)
qed

theorem uncompressed_roundtrip_witness:
  "take 3 [0x74, 0x61, 0x72, 0x21 :: byte] \<noteq> [0x1F, 0x8B, 0x08] \<and>
   (\<exists>r st. DecompressStream header_only_NewReader
       (bytes_Reader (Writer (snd (Write \<lparr>Writer = [], wcloser = None\<rparr> [0x74, 0x61, 0x72, 0x21]))))
       empty_store = (Inr r, st) \<and>
     GetCompression r = Uncompressed \<and> drain r st = ([0x74, 0x61, 0x72, 0x21], EOF))"
proof -
  have h: "take 3 [0x74, 0x61, 0x72, 0x21 :: byte] \<noteq> [0x1F, 0x8B, 0x08]"
    by simp
  from uncompressed_roundtrip [OF h, of header_only_NewReader empty_store] h show ?thesis
    by (auto simp: CompressStream_def)
qed

text \<open>
  The claim C1 as stated fails on payloads that carry the gzip signature: an
  eleven-byte payload with a complete member header comes back with kind Gzip, and the
  three signature bytes alone make DecompressStream fail in the decoder's constructor.
\<close>

theorem uncompressed_roundtrip_counterexample:
  "CompressStream [] Uncompressed = Inr (Wrapper \<lparr>Writer = [], wcloser = None\<rparr>) \<and>
   map_sum id GetCompression
     (fst (DecompressStream header_only_NewReader
        (bytes_Reader (Writer (snd (Write \<lparr>Writer = [], wcloser = None\<rparr>
           [0x1F, 0x8B, 0x08, 0, 0, 0, 0, 0, 0, 0xFF, 0xFF]))))
        empty_store)) = Inr Gzip \<and>
   Gzip \<noteq> Uncompressed \<and>
   fst (DecompressStream header_only_NewReader
        (bytes_Reader (Writer (snd (Write \<lparr>Writer = [], wcloser = None\<rparr> [0x1F, 0x8B, 0x08]))))
        empty_store) = Inl (Error ''unexpected EOF'')"
  by (simp add: CompressStream_def DecompressStream_result Write_def bytes_Reader_def
      DetectCompression_unfold Gzip_neq_Uncompressed header_only_NewReader_def first_block_def
      NewReaderSize_def
      GetCompression_def)

subsection \<open>Release of the buffered reader\<close>

text \<open>
  C2, amended. Whenever DecompressStream returns an error, the buffered reader checked
  out at the start of the call has not been put back: the pool holds what it held right
  after the checkout, the reader is not in it, and the reader is still attached to the
  input stream.
\<close>

theorem error_leaves_buffer_checked_out:
  "pool_wf st0 \<Longrightarrow> DecompressStream NewReader archive st0 = (Inl e, st) \<Longrightarrow>
     fst (pool_Get st0) \<notin> set (bufioReader32KPool st) \<and>
     bufioReader32KPool st = bufioReader32KPool (snd (pool_Get st0)) \<and>
     rd (heap st (fst (pool_Get st0))) = Some archive"
proof -
  assume wf: "pool_wf st0" and a: "DecompressStream NewReader archive st0 = (Inl e, st)"
  from a have "st = snd (DecompressStream NewReader archive st0)"
    by simp
  then have st: "st = buf_Reset (fst (pool_Get st0)) (Some archive) (snd (pool_Get st0))"
    by (simp add: DecompressStream_store)
  show ?thesis
    using pool_Get_fresh [OF wf] by (simp add: st checkout_pool checkout_attached)
qed

theorem error_leaves_buffer_checked_out_witness:
  "pool_wf empty_store \<and>
   fst (DecompressStream header_only_NewReader \<lparr>data = [], final = Error ''read failed''\<rparr>
          empty_store) = Inl (Error ''read failed'') \<and>
   fst (pool_Get empty_store) = 0 \<and>
   0 \<notin> set (bufioReader32KPool
     (snd (DecompressStream header_only_NewReader \<lparr>data = [], final = Error ''read failed''\<rparr>
          empty_store)))"
proof -
  let ?archive = "\<lparr>data = [], final = Error ''read failed''\<rparr>"
  let ?res = "DecompressStream header_only_NewReader ?archive empty_store"
  have wf: "pool_wf empty_store"
    by (simp add: pool_wf_def empty_store_def)
  have f: "fst ?res = Inl (Error ''read failed'')"
    by (simp add: DecompressStream_result)
  then have "?res = (Inl (Error ''read failed''), snd ?res)"
    by (simp add: prod_eq_iff)
  from error_leaves_buffer_checked_out [OF wf this] wf f show ?thesis
    by (simp add: pool_Get_def pool_New_def empty_store_def)
qed

text \<open>
  The claim C2 as stated fails on both error paths: after a read failure during the
  peek, and after a failure of the decoder's constructor, the pool that was empty before
  the call is still empty.
\<close>

theorem error_release_counterexample:
  "fst (DecompressStream header_only_NewReader \<lparr>data = [], final = Error ''read failed''\<rparr>
          empty_store) = Inl (Error ''read failed'') \<and>
   bufioReader32KPool
     (snd (DecompressStream header_only_NewReader \<lparr>data = [], final = Error ''read failed''\<rparr>
          empty_store)) = [] \<and>
   fst (DecompressStream header_only_NewReader (bytes_Reader [0x1F, 0x8B, 0x08])
          empty_store) = Inl (Error ''unexpected EOF'') \<and>
   bufioReader32KPool
     (snd (DecompressStream header_only_NewReader (bytes_Reader [0x1F, 0x8B, 0x08])
          empty_store)) = []"
  by (simp add: DecompressStream_result DecompressStream_store checkout_pool bytes_Reader_def
      DetectCompression_unfold Gzip_neq_Uncompressed header_only_NewReader_def first_block_def
      NewReaderSize_def
      pool_Get_def pool_New_def empty_store_def)

text \<open>
  C3, amended. For every stream DecompressStream returns with kind Gzip, Close returns
  no error, detaches the buffered reader from its stream and puts it into the pool. The
  gzip decoder built by the library is not involved: Close gives the same result whatever
  decoder the stream holds.
\<close>

theorem Close_releases_buffer:
  "DecompressStream NewReader archive st0 = (Inr r, st) \<Longrightarrow> GetCompression r = Gzip \<Longrightarrow>
     (\<exists>z. Reader r = GzReader z \<and> NewReader (NewReaderSize (Some archive)) = Inr z) \<and>
     (\<exists>s'. Close r s = (None, s') \<and>
        rd (heap s' (fst (pool_Get st0))) = None \<and>
        bufioReader32KPool s' = fst (pool_Get st0) # bufioReader32KPool s) \<and>
     (\<forall>z'. Close (r\<lparr>Reader := GzReader z'\<rparr>) s = Close r s)"
proof -
  assume a: "DecompressStream NewReader archive st0 = (Inr r, st)"
    and g: "GetCompression r = Gzip"
  let ?buf = "fst (pool_Get st0)"
  from a have f: "fst (DecompressStream NewReader archive st0) = Inr r"
    by simp
  from f g have c: "closer r = Some (\<lambda>s. (None, pool_Put ?buf (buf_Reset ?buf None s)))"
    by (auto simp: DecompressStream_result GetCompression_def split: if_splits sum.splits)
  from f g have z: "\<exists>z. Reader r = GzReader z \<and> NewReader (NewReaderSize (Some archive)) = Inr z"
    by (auto simp: DecompressStream_result GetCompression_def Uncompressed_neq_Gzip
        split: if_splits sum.splits)
  have "Close r s = (None, pool_Put ?buf (buf_Reset ?buf None s))"
    by (simp add: Close_def c)
  with release_effect [OF refl, of ?buf s] z c show ?thesis
    by (simp add: Close_def)
qed

theorem Close_releases_buffer_witness:
  "(case DecompressStream header_only_NewReader
       (bytes_Reader [0x1F, 0x8B, 0x08, 0, 0, 0, 0, 0, 0, 0xFF, 0xFF]) empty_store of
      (Inl e, st) \<Rightarrow> False
    | (Inr r, st) \<Rightarrow> GetCompression r = Gzip \<and> fst (Close r st) = None \<and>
        rd (heap (snd (Close r st)) 0) = None \<and> bufioReader32KPool (snd (Close r st)) = [0])"
proof -
  let ?archive = "bytes_Reader [0x1F, 0x8B, 0x08, 0, 0, 0, 0, 0, 0, 0xFF, 0xFF]"
  let ?res = "DecompressStream header_only_NewReader ?archive empty_store"
  obtain r where r: "fst ?res = Inr r" and g: "GetCompression r = Gzip"
    by (simp add: DecompressStream_result bytes_Reader_def DetectCompression_unfold
        Gzip_neq_Uncompressed header_only_NewReader_def first_block_def NewReaderSize_def
        GetCompression_def)
  then have res: "?res = (Inr r, snd ?res)"
    by (simp add: prod_eq_iff)
  have pool: "bufioReader32KPool (snd ?res) = []" "fst (pool_Get empty_store) = 0"
    by (simp_all add: DecompressStream_store checkout_pool pool_Get_def pool_New_def
        empty_store_def)
  from Close_releases_buffer [OF res g, of "snd ?res"] pool g have
    "fst (Close r (snd ?res)) = None \<and> rd (heap (snd (Close r (snd ?res))) 0) = None \<and>
     bufioReader32KPool (snd (Close r (snd ?res))) = [0]"
    by auto
  with g show ?thesis
    by (subst res) simp
qed

text \<open>
  The claim C3 as stated fails on the decoder. The stream is a gzip member with a
  complete header and a body that starts with a block of the reserved type. Reading the
  returned stream fails with the decoder's corrupt-input error, and the decoder's own
  Close would then report that error; Close of the returned stream reports nothing.
\<close>

theorem Close_decoder_counterexample:
  "(case DecompressStream header_only_NewReader
       (bytes_Reader [0x1F, 0x8B, 0x08, 0, 0, 0, 0, 0, 0, 0xFF, 0xFF]) empty_store of
      (Inl e, st) \<Rightarrow> False
    | (Inr r, st) \<Rightarrow> GetCompression r = Gzip \<and>
        drain r st = ([], Error ''flate: corrupt input before offset 1'') \<and>
        (case Reader (drained r) of
           BufReader b \<Rightarrow> False
         | GzReader z \<Rightarrow>
             gzip_Close z = Some (Error ''flate: corrupt input before offset 1'')) \<and>
        fst (Close (drained r) st) = None)"
  by (simp add: DecompressStream_def pool_Get_def pool_New_def empty_store_def buf_Reset_def
      Reset_def NewReaderSize_def Peek_def bufSize_def bytes_Reader_def DetectCompression_unfold
      Gzip_neq_Uncompressed header_only_NewReader_def first_block_def GetCompression_def
      Close_def pool_Put_def drain_def drained_def gzip_Close_def gzip_read_to_end_def Let_def)

end
